theory Spec2Isabelle
  imports Main "HOL-Library.Word"
begin

unbundle bit_operations_syntax

section \<open>The OAuth2 scheme of @nuxtjs-alt/auth (runtime/schemes/oauth2.ts)\<close>

subsection \<open>JavaScript values\<close>

text \<open>
  The values that flow through the scheme: option values, storage entries, query
  parameters and fields of HTTP responses. \<open>truthy\<close> is JavaScript's conversion to
  boolean, which every \<open>if (x)\<close>, \<open>!x\<close>, \<open>a || b\<close> and \<open>a && b\<close> of the source applies.
\<close>

datatype jsval = JUndef | JNull | JBool bool | JNum int | JStr string

fun truthy :: "jsval \<Rightarrow> bool" where
  "truthy JUndef = False"
| "truthy JNull = False"
| "truthy (JBool b) = b"
| "truthy (JNum n) = (n \<noteq> 0)"
| "truthy (JStr s) = (s \<noteq> [])"

text \<open>\<open>a || b\<close> on values.\<close>

definition js_or :: "jsval \<Rightarrow> jsval \<Rightarrow> jsval" where
  "js_or a b = (if truthy a then a else b)"

subsection \<open>check\<close>

text \<open>
  \<open>SchemeCheck\<close>, the object \<open>check\<close> returns, and what \<open>check\<close> reads from the
  \<open>Token\<close> and \<open>RefreshToken\<close> collaborators: the value \<open>token.sync()\<close> returns and the
  two \<open>status().expired()\<close> answers. \<open>refreshTokens\<close> reads \<open>refreshToken.get()\<close> as well.
\<close>

record scheme_check =
  valid :: bool
  tokenExpired :: bool
  refreshTokenExpired :: bool
  isRefreshable :: bool

record token_view =
  token_sync :: jsval
  token_status_expired :: bool
  refreshToken_get :: jsval
  refreshToken_status_expired :: bool

definition check_response :: scheme_check where
  "check_response =
     \<lparr>valid = False, tokenExpired = False, refreshTokenExpired = False, isRefreshable = True\<rparr>"

definition check :: "bool \<Rightarrow> token_view \<Rightarrow> scheme_check" where
  "check checkStatus tv =
     (let response = check_response in
      if \<not> truthy (token_sync tv) then response
      else if \<not> checkStatus then response\<lparr>valid := True\<rparr>
      else if refreshToken_status_expired tv then response\<lparr>refreshTokenExpired := True\<rparr>
      else if token_status_expired tv then response\<lparr>tokenExpired := True\<rparr>
      else response\<lparr>valid := True\<rparr>)"

text \<open>How many of the three outcome flags of a result are set.\<close>

definition flags_set :: "scheme_check \<Rightarrow> nat" where
  "flags_set r =
     (if valid r then 1 else 0) + (if tokenExpired r then 1 else 0)
       + (if refreshTokenExpired r then 1 else 0)"

subsection \<open>generateRandomString\<close>

text \<open>
  \<open>Number.prototype.toString(16)\<close> on a non-negative integer: lower-case hexadecimal
  digits, most significant first, no leading zero (\<open>0\<close> prints as \<open>0\<close>).
\<close>

definition hexdigit :: "nat \<Rightarrow> char" where
  "hexdigit d = ''0123456789abcdef'' ! (d mod 16)"

function toString16 :: "nat \<Rightarrow> string" where
  "toString16 n = (if n < 16 then [hexdigit n] else toString16 (n div 16) @ [hexdigit (n mod 16)])"
  by pat_completeness auto
termination
  by (relation "measure id") auto

declare toString16.simps [simp del]

text \<open>\<open>s.slice(-2)\<close>: the last two characters of \<open>s\<close>, all of \<open>s\<close> when it is shorter.\<close>

definition slice_last2 :: "string \<Rightarrow> string" where
  "slice_last2 s = drop (length s - 2) s"

text \<open>
  \<open>generateRandomString\<close> allocates \<open>new Uint32Array(28)\<close>, lets
  \<open>window.crypto.getRandomValues\<close> fill it, and joins
  \<open>('0' + dec.toString(16)).slice(-2)\<close> over its elements. The random source is the
  parameter: \<open>getRandomValues i\<close> is the 32-bit value it writes at index \<open>i\<close>.
\<close>

definition generateRandomString :: "(nat \<Rightarrow> 32 word) \<Rightarrow> string" where
  "generateRandomString getRandomValues =
     concat (map (\<lambda>dec. slice_last2 (CHR ''0'' # toString16 (unat dec)))
                 (map getRandomValues [0..<28]))"

text \<open>Reading a hex string back, two characters a byte.\<close>

definition hexval :: "char \<Rightarrow> nat" where
  "hexval c = (if c \<in> set ''0123456789'' then of_char c - 48 else of_char c - 87)"

definition is_hex :: "char \<Rightarrow> bool" where
  "is_hex c = (c \<in> set ''0123456789abcdef'')"

fun bytes_of_hex :: "string \<Rightarrow> nat list" where
  "bytes_of_hex (a # b # cs) = (16 * hexval a + hexval b) # bytes_of_hex cs"
| "bytes_of_hex _ = []"

subsection \<open>pkceChallengeFromVerifier\<close>

text \<open>
  \<open>btoa\<close> on the string \<open>String.fromCharCode.apply(null, new Uint8Array(str))\<close>, whose
  characters are the bytes of the buffer: standard base64 with \<open>=\<close> padding.
\<close>

definition b64char :: "nat \<Rightarrow> char" where
  "b64char i =
     ''ABCDEFGHIJKLMNOPQRSTUVWXYZabcdefghijklmnopqrstuvwxyz0123456789+/'' ! (i mod 64)"

fun btoa :: "nat list \<Rightarrow> string" where
  "btoa [] = []"
| "btoa [a] = [b64char (a div 4), b64char ((a mod 4) * 16), CHR ''='', CHR ''='']"
| "btoa [a, b] =
     [b64char (a div 4), b64char ((a mod 4) * 16 + b div 16), b64char ((b mod 16) * 4),
      CHR ''='']"
| "btoa (a # b # c # bs) =
     [b64char (a div 4), b64char ((a mod 4) * 16 + b div 16),
      b64char ((b mod 16) * 4 + c div 64), b64char (c mod 64)] @ btoa bs"

text \<open>\<open>s.replace(/x/g, y)\<close> for single characters, and \<open>s.replace(/=+$/, '')\<close>.\<close>

definition replace_all :: "char \<Rightarrow> char \<Rightarrow> string \<Rightarrow> string" where
  "replace_all x y s = map (\<lambda>c. if c = x then y else c) s"

definition strip_trailing_eq :: "string \<Rightarrow> string" where
  "strip_trailing_eq s = rev (dropWhile (\<lambda>c. c = CHR ''='') (rev s))"

definition base64UrlEncode :: "8 word list \<Rightarrow> string" where
  "base64UrlEncode str =
     strip_trailing_eq
       (replace_all (CHR ''/'') (CHR ''_'')
         (replace_all (CHR ''+'') (CHR ''-'') (btoa (map unat str))))"

text \<open>
  \<open>#sha256\<close> hands the UTF-8 encoding of the string to the platform's
  \<open>crypto.subtle.digest('SHA-256', ...)\<close>; it is the parameter \<open>sha256\<close>.
\<close>

definition pkceChallengeFromVerifier :: "(string \<Rightarrow> 8 word list) \<Rightarrow> string \<Rightarrow> bool \<Rightarrow> string" where
  "pkceChallengeFromVerifier sha256 v hashValue =
     (if hashValue then base64UrlEncode (sha256 v) else v)"

subsection \<open>Options, collaborators and the state of a scheme\<close>

text \<open>
  The options the scheme reads (\<open>Oauth2SchemeOptions\<close> and, from \<open>$auth.options\<close>,
  \<open>redirect\<close> and \<open>watchLoggedIn\<close>). An option the source only tests for truthiness or
  passes on is a \<open>jsval\<close>; \<open>refreshToken.property\<close> is \<open>string | false\<close>;
  \<open>scope\<close> is \<open>string | string[]\<close>; \<open>$auth.options.redirect\<close> is an object or
  \<open>false\<close> (\<open>None\<close>).
\<close>

datatype property = PropFalse | Prop string

fun truthy_prop :: "property \<Rightarrow> bool" where
  "truthy_prop PropFalse = False"
| "truthy_prop (Prop s) = (s \<noteq> [])"

datatype scope_option = ScopeString string | ScopeArray "string list"

record redirect_options =
  callback :: string
  logout :: string

record options =
  name :: string
  responseType :: string
  accessType :: jsval
  clientId :: jsval
  redirectUri :: jsval
  scope_opt :: scope_option
  codeChallengeMethod :: jsval
  clientWindow :: bool
  clientWindowWidth :: jsval
  clientWindowHeight :: jsval
  organization :: jsval
  audience :: jsval
  responseMode :: jsval
  acrValues :: jsval
  grantType :: jsval
  endpoints_authorization :: string
  endpoints_token :: jsval
  token_property :: string
  token_type :: jsval
  refreshToken_property :: property
  auth_redirect :: "redirect_options option"
  auth_watchLoggedIn :: bool

datatype error = TypeError | ExpiredAuthSessionError | RequestError string

record http_request =
  req_method :: string
  req_url :: jsval
  req_baseURL :: string
  req_headers :: "(string \<times> string) list"
  req_body :: "(string \<times> jsval) list"

text \<open>
  \<open>#clientWindowReference: Window | undefined | null\<close>. The field is declared without an
  initialiser and the constructor does not assign it, so a new scheme holds \<open>undefined\<close>.
  Of a window the scheme only reads \<open>closed\<close>.
\<close>

datatype window_ref = RefUndefined | RefNull | RefWindow (closed: bool)

text \<open>
  What the source calls but does not define: the utilities of \<open>../../utils\<close>, the HTTP
  client behind \<open>$auth.request\<close> (which answers with a response or rejects), the route
  and runtime of the host, the browser's window and random source. \<open>'r\<close> is the type of
  HTTP responses, read only through \<open>getProp\<close>.
\<close>

record 'r env =
  normalizePath :: "string \<Rightarrow> string"
  parseQuery :: "string \<Rightarrow> (string \<rightharpoonup> jsval)"
  encodeQuery :: "(string \<rightharpoonup> jsval) \<Rightarrow> string"
  urlJoin :: "string \<Rightarrow> string \<Rightarrow> string"
  removeTokenPrefix :: "jsval \<Rightarrow> jsval \<Rightarrow> jsval"
  getProp :: "'r \<Rightarrow> property \<Rightarrow> jsval"
  auth_request :: "http_request \<Rightarrow> error + 'r"
  requrl :: string
  app_baseURL :: string
  process_server :: bool
  route_path :: string
  route_query :: "string \<rightharpoonup> jsval"
  route_hash :: string
  window_opener :: bool
  window_open :: "string \<Rightarrow> string \<Rightarrow> string \<Rightarrow> window_ref"
  clientWindowFeatures :: "jsval \<Rightarrow> jsval \<Rightarrow> string"
  encodeURIComponent :: "string \<Rightarrow> string"
  sha256 :: "string \<Rightarrow> 8 word list"
  randomString :: "nat \<Rightarrow> string"
  randomString_nonce :: "nat \<Rightarrow> string"
  getRandomValues_state :: "nat \<Rightarrow> 32 word"
  getRandomValues_verifier :: "nat \<Rightarrow> 32 word"

text \<open>
  The calls the scheme makes on its collaborators, in the order it makes them, are kept in
  a log; the universal storage and the popup reference are state.
\<close>

datatype effect =
    Token_set jsval
  | RefreshToken_set jsval
  | Auth_reset
  | Auth_redirect string
  | Auth_request http_request
  | Auth_callOnError error
  | RequestHandler_clearHeader
  | Opener_postMessage
  | Window_close
  | Window_open string string string
  | Window_focus
  | Window_addEventListener
  | Window_setInterval
  | Window_removeEventListener
  | Window_clearInterval
  | Location_replace string

record world =
  storage :: "string \<rightharpoonup> jsval"
  clientWindowReference :: window_ref
  log :: "effect list"

definition emit :: "effect \<Rightarrow> world \<Rightarrow> world" where
  "emit e w = w\<lparr>log := log w @ [e]\<rparr>"

text \<open>
  Modelled from the spec: the storage collaborator (\<open>$auth.$storage\<close>) is not among the
  sources. The spec gives \<open>getUniversal(key)\<close> and \<open>setUniversal(key, value|null)\<close> on
  a key to value mapping, where setting \<open>null\<close> deletes the entry; a key that is not
  stored reads as \<open>undefined\<close>.
\<close>

definition getUniversal :: "string \<Rightarrow> world \<Rightarrow> jsval" where
  "getUniversal key w = (case storage w key of None \<Rightarrow> JUndef | Some v \<Rightarrow> v)"

definition setUniversal :: "string \<Rightarrow> jsval \<Rightarrow> world \<Rightarrow> world" where
  "setUniversal key v w =
     (if v = JNull then w\<lparr>storage := (storage w)(key := None)\<rparr>
      else w\<lparr>storage := (storage w)(key \<mapsto> v)\<rparr>)"

text \<open>The state of a scheme right after its constructor.\<close>

definition new_world :: world where
  "new_world = \<lparr>storage = Map.empty, clientWindowReference = RefUndefined, log = []\<rparr>"

text \<open>\<open>obj[key]\<close> on an object of parameters: \<open>undefined\<close> for a missing key.\<close>

definition get_field :: "(string \<rightharpoonup> jsval) \<Rightarrow> string \<Rightarrow> jsval" where
  "get_field obj key = (case obj key of None \<Rightarrow> JUndef | Some v \<Rightarrow> v)"

text \<open>\<open>v.length\<close> converted to boolean, for a value \<open>v\<close> that is not null or undefined.\<close>

fun truthy_length :: "jsval \<Rightarrow> bool" where
  "truthy_length (JStr s) = (s \<noteq> [])"
| "truthy_length _ = False"

text \<open>\<open>s.includes(sub)\<close> on strings.\<close>

fun starts_with :: "string \<Rightarrow> string \<Rightarrow> bool" where
  "starts_with s [] = True"
| "starts_with [] (c # sub) = False"
| "starts_with (d # s) (c # sub) = (d = c \<and> starts_with s sub)"

fun js_includes :: "string \<Rightarrow> string \<Rightarrow> bool" where
  "js_includes [] sub = (sub = [])"
| "js_includes (c # s) sub = (starts_with (c # s) sub \<or> js_includes s sub)"

fun join :: "string \<Rightarrow> string list \<Rightarrow> string" where
  "join sep [] = []"
| "join sep [x] = x"
| "join sep (x # y # xs) = x @ sep @ join sep (y # xs)"

definition scope :: "options \<Rightarrow> string" where
  "scope opts = (case scope_opt opts of ScopeArray xs \<Rightarrow> join '' '' xs | ScopeString s \<Rightarrow> s)"

definition redirectURI :: "'r env \<Rightarrow> options \<Rightarrow> jsval" where
  "redirectURI env opts =
     (let basePath = app_baseURL env;
          path = normalizePath env (basePath @ ''/'' @
                   (case auth_redirect opts of None \<Rightarrow> ''undefined'' | Some r \<Rightarrow> callback r))
      in js_or (redirectUri opts) (JStr (urlJoin env (requrl env) path)))"

subsection \<open>#handleCallback\<close>

text \<open>
  The end of \<open>#handleCallback\<close>, from \<open>if (!token || !token.length)\<close> on: both the
  path through the token exchange and the path around it arrive here with their
  \<open>token\<close> and \<open>refreshToken\<close>.
\<close>

text \<open>The request of the authorization-code exchange (the argument of \<open>$auth.request\<close>).\<close>

definition exchange_request :: "'r env \<Rightarrow> options \<Rightarrow> jsval \<Rightarrow> jsval \<Rightarrow> http_request" where
  "exchange_request env opts code codeVerifier =
     \<lparr>req_method = ''post'', req_url = endpoints_token opts, req_baseURL = [],
      req_headers = [],
      req_body =
        [(''code'', code),
         (''client_id'', clientId opts),
         (''redirect_uri'', redirectURI env opts),
         (''response_type'', JStr (responseType opts)),
         (''audience'', audience opts),
         (''grant_type'', grantType opts),
         (''code_verifier'', codeVerifier)]\<rparr>"

text \<open>
  \<open>Object.assign({}, route.query, parseQuery(route.hash.slice(1)))\<close>: the parameters of
  the query and of the fragment, the fragment's winning.
\<close>

definition merged_params :: "'r env \<Rightarrow> (string \<rightharpoonup> jsval)" where
  "merged_params env =
     (let hash = parseQuery env (drop 1 (route_hash env)) in route_query env ++ hash)"

definition handleCallback_store :: "'r env \<Rightarrow> options \<Rightarrow> jsval \<Rightarrow> jsval \<Rightarrow> world \<Rightarrow> (error + jsval) \<times> world" where
  "handleCallback_store env opts token refreshToken w =
     (if \<not> truthy token \<or> \<not> truthy_length token then (Inr JUndef, w)
      else
        let w1 = emit (Token_set token) w;
            w2 = (if truthy refreshToken \<and> truthy_length refreshToken
                  then emit (RefreshToken_set refreshToken) w1 else w1)
        in if clientWindow opts then
             (if window_opener env
              then (Inr JUndef, emit Window_close (emit Opener_postMessage w2))
              else (Inr JUndef, w2))
           else if auth_watchLoggedIn opts then
             (Inr (JBool True), emit (Auth_redirect ''home'') w2)
           else (Inr JUndef, w2))"

definition handleCallback :: "'r env \<Rightarrow> options \<Rightarrow> world \<Rightarrow> (error + jsval) \<times> world" where
  "handleCallback env opts w =
     (if (case auth_redirect opts of
            None \<Rightarrow> False
          | Some r \<Rightarrow> normalizePath env (route_path env) \<noteq> normalizePath env (callback r))
      then (Inr JUndef, w)
      else if process_server env then (Inr JUndef, w)
      else
        let parsedQuery = merged_params env;
            token = get_field parsedQuery (token_property opts);
            refreshToken =
              (if truthy_prop (refreshToken_property opts)
               then (case refreshToken_property opts of
                       Prop p \<Rightarrow> get_field parsedQuery p | PropFalse \<Rightarrow> JUndef)
               else JUndef);
            state = getUniversal (name opts @ ''.state'') w;
            w1 = setUniversal (name opts @ ''.state'') JNull w
        in if truthy state \<and> get_field parsedQuery ''state'' \<noteq> state then (Inr JUndef, w1)
           else if responseType opts = ''code'' \<and> truthy (get_field parsedQuery ''code'') then
             (let pkce = (truthy (codeChallengeMethod opts)
                          \<and> codeChallengeMethod opts \<noteq> JStr ''implicit'');
                  codeVerifier =
                    (if pkce then getUniversal (name opts @ ''.pkce_code_verifier'') w1
                     else JUndef);
                  w2 = (if pkce then setUniversal (name opts @ ''.pkce_code_verifier'') JNull w1
                        else w1);
                  req = exchange_request env opts (get_field parsedQuery ''code'') codeVerifier;
                  w3 = emit (Auth_request req) w2
              in case auth_request env req of
                   Inl e \<Rightarrow> (Inl e, w3)
                 | Inr response \<Rightarrow>
                     handleCallback_store env opts
                       (js_or (getProp env response (Prop (token_property opts))) token)
                       (js_or (getProp env response (refreshToken_property opts)) refreshToken)
                       w3)
           else handleCallback_store env opts token refreshToken w1)"

text \<open>
  The two guards at the top of \<open>#handleCallback\<close> let a call through when the route is
  the callback route (or \<open>redirect\<close> is off) and the code runs in the browser.
\<close>

definition on_callback_route :: "'r env \<Rightarrow> options \<Rightarrow> bool" where
  "on_callback_route env opts =
     ((case auth_redirect opts of
         None \<Rightarrow> True
       | Some r \<Rightarrow> normalizePath env (route_path env) = normalizePath env (callback r))
      \<and> \<not> process_server env)"

text \<open>The condition of the authorization-code branch, and of a token that gets stored.\<close>

definition code_exchange :: "'r env \<Rightarrow> options \<Rightarrow> bool" where
  "code_exchange env opts =
     (responseType opts = ''code'' \<and> truthy (get_field (merged_params env) ''code''))"

definition usable :: "jsval \<Rightarrow> bool" where
  "usable token = (truthy token \<and> truthy_length token)"

text \<open>The code verifier that the exchange reads from the storage when PKCE is configured.\<close>

definition stored_codeVerifier :: "options \<Rightarrow> world \<Rightarrow> jsval" where
  "stored_codeVerifier opts w =
     (if truthy (codeChallengeMethod opts) \<and> codeChallengeMethod opts \<noteq> JStr ''implicit''
      then getUniversal (name opts @ ''.pkce_code_verifier'') w else JUndef)"

subsection \<open>refreshTokens and updateTokens\<close>

text \<open>The request of the refresh exchange.\<close>

definition refresh_request :: "'r env \<Rightarrow> options \<Rightarrow> jsval \<Rightarrow> http_request" where
  "refresh_request env opts refreshToken =
     \<lparr>req_method = ''post'', req_url = endpoints_token opts, req_baseURL = [],
      req_headers = [(''Content-Type'', ''application/x-www-form-urlencoded'')],
      req_body =
        [(''refresh_token'', removeTokenPrefix env refreshToken (token_type opts)),
         (''scopes'', JStr (scope opts)),
         (''client_id'', clientId opts),
         (''grant_type'', JStr ''refresh_token'')]\<rparr>"

definition updateTokens :: "'r env \<Rightarrow> options \<Rightarrow> 'r \<Rightarrow> world \<Rightarrow> world" where
  "updateTokens env opts response w =
     (let token = getProp env response (Prop (token_property opts));
          refreshToken = getProp env response (refreshToken_property opts);
          w1 = emit (Token_set token) w
      in if truthy refreshToken then emit (RefreshToken_set refreshToken) w1 else w1)"

text \<open>
  \<open>refreshTokens\<close> resolves with nothing (\<open>None\<close>) or with the response, or rejects.
\<close>

definition refreshTokens :: "'r env \<Rightarrow> options \<Rightarrow> token_view \<Rightarrow> world \<Rightarrow> (error + 'r option) \<times> world" where
  "refreshTokens env opts tv w =
     (let refreshToken = refreshToken_get tv in
      if \<not> truthy refreshToken then (Inr None, w)
      else if refreshToken_status_expired tv then
        (Inl ExpiredAuthSessionError, emit Auth_reset w)
      else
        let w1 = emit RequestHandler_clearHeader w;
            req = refresh_request env opts refreshToken;
            w2 = emit (Auth_request req) w1
        in case auth_request env req of
             Inl e \<Rightarrow> (Inl e, emit (Auth_callOnError e) w2)
           | Inr response \<Rightarrow> (Inr (Some response), updateTokens env opts response w2))"

text \<open>The requests in a log: the calls of \<open>$auth.request\<close>.\<close>

fun is_request :: "effect \<Rightarrow> bool" where
  "is_request (Auth_request r) = True"
| "is_request _ = False"

subsection \<open>login\<close>

text \<open>The argument of \<open>login\<close>: \<open>{ state?, params?, nonce? }\<close>.\<close>

record login_arg =
  arg_state :: jsval
  arg_params :: "string \<rightharpoonup> jsval"
  arg_nonce :: jsval

text \<open>
  \<open>login\<close>, block by block. First the object literal \<open>opts\<close> with the spread of
  \<open>$opts.params\<close> at its end, and the \<open>organization\<close> and \<open>audience\<close> options.
\<close>

definition login_opts :: "'r env \<Rightarrow> options \<Rightarrow> login_arg \<Rightarrow> (string \<rightharpoonup> jsval)" where
  "login_opts env options arg =
     (let opts0 =
            [''protocol'' \<mapsto> JStr ''oauth2'',
             ''response_type'' \<mapsto> JStr (responseType options),
             ''access_type'' \<mapsto> accessType options,
             ''client_id'' \<mapsto> clientId options,
             ''redirect_uri'' \<mapsto> redirectURI env options,
             ''scope'' \<mapsto> JStr (scope options),
             ''state'' \<mapsto> js_or (arg_state arg) (JStr (randomString env 10)),
             ''code_challenge_method'' \<mapsto> codeChallengeMethod options,
             ''clientWindow'' \<mapsto> JBool (clientWindow options),
             ''clientWindowWidth'' \<mapsto> clientWindowWidth options,
             ''clientWindowHeight'' \<mapsto> clientWindowHeight options]
            ++ arg_params arg;
          opts1 = (if truthy (organization options)
                   then opts0(''organization'' \<mapsto> organization options) else opts0)
      in if truthy (audience options)
         then opts1(''audience'' \<mapsto> audience options) else opts1)"

text \<open>
  The nonce: \<open>if (opts.response_type.includes('token') ||
  opts.response_type.includes('id_token')) opts.nonce = $opts.nonce || randomString(10)\<close>.
  \<open>includes\<close> throws a TypeError when the spread of \<open>$opts.params\<close> has replaced
  \<open>response_type\<close> by something that is not a string.
\<close>

definition login_nonce :: "'r env \<Rightarrow> login_arg \<Rightarrow> (string \<rightharpoonup> jsval) \<Rightarrow> error + (string \<rightharpoonup> jsval)" where
  "login_nonce env arg opts =
     (case get_field opts ''response_type'' of
        JStr response_type \<Rightarrow>
          if js_includes response_type ''token'' \<or> js_includes response_type ''id_token''
          then Inr (opts(''nonce'' \<mapsto> js_or (arg_nonce arg) (JStr (randomString_nonce env 10))))
          else Inr opts
      | _ \<Rightarrow> Inl TypeError)"

text \<open>The PKCE block: the \<open>switch\<close> on \<open>opts.code_challenge_method\<close>.\<close>

definition login_pkce :: "'r env \<Rightarrow> options \<Rightarrow> (string \<rightharpoonup> jsval) \<Rightarrow> world \<Rightarrow> (string \<rightharpoonup> jsval) \<times> world" where
  "login_pkce env options opts w =
     (let method = get_field opts ''code_challenge_method'' in
      if truthy method \<and> (method = JStr ''plain'' \<or> method = JStr ''S256'') then
        let state = generateRandomString (getRandomValues_state env);
            w1 = setUniversal (name options @ ''.pkce_state'') (JStr state) w;
            codeVerifier = generateRandomString (getRandomValues_verifier env);
            w2 = setUniversal (name options @ ''.pkce_code_verifier'') (JStr codeVerifier) w1;
            codeChallenge =
              pkceChallengeFromVerifier (sha256 env) codeVerifier (method = JStr ''S256'')
        in (opts(''code_challenge'' \<mapsto> JStr (encodeURIComponent env codeChallenge)), w2)
      else (opts, w))"

text \<open>
  All of \<open>login\<close> up to and including
  \<open>setUniversal(this.name + '.state', opts.state)\<close>: the parameters of the authorization
  request are complete.
\<close>

definition login_params :: "'r env \<Rightarrow> options \<Rightarrow> login_arg \<Rightarrow> world \<Rightarrow> error + ((string \<rightharpoonup> jsval) \<times> world)" where
  "login_params env options arg w =
     (case login_nonce env arg (login_opts env options arg) of
        Inl e \<Rightarrow> Inl e
      | Inr opts3 \<Rightarrow>
          (case login_pkce env options opts3 w of
             (opts4, w1) \<Rightarrow>
               let opts5 = (if truthy (responseMode options)
                            then opts4(''response_mode'' \<mapsto> responseMode options) else opts4);
                   opts6 = (if truthy (acrValues options)
                            then opts5(''acr_values'' \<mapsto> acrValues options) else opts5);
                   w2 = setUniversal (name options @ ''.state'') (get_field opts6 ''state'') w1
               in Inr (opts6, w2)))"

text \<open>The parameters of the authorization request that \<open>login\<close> builds, if it gets there.\<close>

definition request_params :: "'r env \<Rightarrow> options \<Rightarrow> login_arg \<Rightarrow> world \<Rightarrow> (string \<rightharpoonup> jsval)" where
  "request_params env options arg w =
     (case login_params env options arg w of Inl e \<Rightarrow> Map.empty | Inr (opts, w') \<Rightarrow> opts)"

text \<open>
  \<open>this.#clientWindowReference === null || this.#clientWindowReference!.closed\<close>:
  reading \<open>closed\<close> of \<open>undefined\<close> throws a TypeError.
\<close>

fun popup_gone :: "window_ref \<Rightarrow> error + bool" where
  "popup_gone RefNull = Inr True"
| "popup_gone RefUndefined = Inl TypeError"
| "popup_gone (RefWindow c) = Inr c"

definition login :: "'r env \<Rightarrow> options \<Rightarrow> login_arg \<Rightarrow> world \<Rightarrow> (error + unit) \<times> world" where
  "login env options arg w =
     (case login_params env options arg w of
        Inl e \<Rightarrow> (Inl e, w)
      | Inr (opts, w1) \<Rightarrow>
          let url = endpoints_authorization options @ ''?'' @ encodeQuery env opts in
          if truthy (get_field opts ''clientWindow'') then
            (case popup_gone (clientWindowReference w1) of
               Inl e \<Rightarrow> (Inl e, w1)
             | Inr True \<Rightarrow>
                 let windowFeatures =
                       clientWindowFeatures env (get_field opts ''clientWindowWidth'')
                         (get_field opts ''clientWindowHeight'');
                     w2 = emit (Window_open url ''oauth2-client-window'' windowFeatures) w1;
                     w3 = w2\<lparr>clientWindowReference :=
                               window_open env url ''oauth2-client-window'' windowFeatures\<rparr>
                 in (Inr (), emit Window_setInterval (emit Window_addEventListener w3))
             | Inr False \<Rightarrow> (Inr (), emit Window_focus w1))
          else (Inr (), emit (Location_replace url) w1))"

text \<open>
  The callback \<open>login\<close> hands to \<open>setInterval\<close>; \<open>strategy\<close> is the strategy at the
  time the popup was opened, \<open>current\<close> the one at the time of the tick. Apart from a
  \<open>window.open\<close> that returns \<open>null\<close>, it is the only place that sets the reference to
  \<open>null\<close>.
\<close>

definition checkPopUpInterval :: "string \<Rightarrow> string \<Rightarrow> world \<Rightarrow> (error + unit) \<times> world" where
  "checkPopUpInterval strategy current w =
     (case clientWindowReference w of
        RefWindow c \<Rightarrow>
          if c \<or> strategy \<noteq> current then
            (Inr (), emit Window_clearInterval
                       ((emit Window_removeEventListener w)\<lparr>clientWindowReference := RefNull\<rparr>))
          else (Inr (), w)
      | _ \<Rightarrow> (Inl TypeError, w))"

subsection \<open>The Refresh Controller\<close>

text \<open>
  Modelled from the spec: the \<open>RefreshController\<close> class (\<open>../inc\<close>) is not among the
  sources; the scheme only constructs it. The spec (4.4, 5): a refresh requested while
  one is already running returns the pending result instead of starting a second one; on
  completion, success or failure, the in-flight marker is cleared; failure reaches every
  waiter.

  The execution is single-threaded and cooperative, so a run is a sequence of events:
  callers asking for a refresh, and the pending operation settling. \<open>refreshPromise\<close> is
  the in-flight marker (the pending operation), \<open>operations\<close> counts the operations
  started, each of which is one call of the scheme's \<open>refreshTokens\<close>, \<open>returned\<close> keeps
  which operation's result each caller was handed (latest first), and \<open>outcomes\<close> how
  the settled operations ended.
\<close>

record 'r refresh_controller =
  refreshPromise :: "nat option"
  operations :: nat
  returned :: "(nat \<times> nat) list"
  outcomes :: "nat \<rightharpoonup> (error + 'r option)"

definition handleRefresh :: "nat \<Rightarrow> 'r refresh_controller \<Rightarrow> 'r refresh_controller" where
  "handleRefresh caller c =
     (case refreshPromise c of
        Some p \<Rightarrow> c\<lparr>returned := (caller, p) # returned c\<rparr>
      | None \<Rightarrow>
          c\<lparr>refreshPromise := Some (operations c),
            operations := Suc (operations c),
            returned := (caller, operations c) # returned c\<rparr>)"

definition settle :: "(error + 'r option) \<Rightarrow> 'r refresh_controller \<Rightarrow> 'r refresh_controller" where
  "settle outcome c =
     (case refreshPromise c of
        Some p \<Rightarrow> c\<lparr>outcomes := (outcomes c)(p \<mapsto> outcome), refreshPromise := None\<rparr>
      | None \<Rightarrow> c)"

fun handleRefresh_all :: "nat list \<Rightarrow> 'r refresh_controller \<Rightarrow> 'r refresh_controller" where
  "handleRefresh_all [] c = c"
| "handleRefresh_all (caller # callers) c = handleRefresh_all callers (handleRefresh caller c)"

text \<open>A controller with no refresh in flight and none started yet.\<close>

definition idle_controller :: "unit refresh_controller" where
  "idle_controller = \<lparr>refreshPromise = None, operations = 0, returned = [], outcomes = Map.empty\<rparr>"

text \<open>What a caller's promise resolves or rejects with, once its operation has settled.\<close>

definition observed :: "'r refresh_controller \<Rightarrow> nat \<Rightarrow> (error + 'r option) option" where
  "observed c caller =
     (case map_of (returned c) caller of None \<Rightarrow> None | Some p \<Rightarrow> outcomes c p)"

subsection \<open>The spec's reading of the nonce rule\<close>

text \<open>
  The spec adds the nonce "when the response type implies an identity token": a response
  type implies an identity token when \<open>id_token\<close> is among the types it requests.
\<close>

definition spec_implies_identity_token :: "string \<Rightarrow> bool" where
  "spec_implies_identity_token response_type = js_includes response_type ''id_token''"

subsection \<open>A sample configuration\<close>

text \<open>
  A scheme with the defaults of the source (\<open>DEFAULTS\<close>) where it has them, in the browser
  on the callback route, with an HTTP client that answers every request with the same
  body. Responses are lists of fields.
\<close>

definition sample_options :: options where
  "sample_options =
     \<lparr>name = ''oauth2'', responseType = ''token'', accessType = JUndef,
      clientId = JStr ''client'', redirectUri = JUndef, scope_opt = ScopeArray [],
      codeChallengeMethod = JStr ''implicit'', clientWindow = False,
      clientWindowWidth = JNum 400, clientWindowHeight = JNum 600,
      organization = JUndef, audience = JUndef, responseMode = JUndef, acrValues = JUndef,
      grantType = JUndef, endpoints_authorization = ''https://as.example/authorize'',
      endpoints_token = JStr ''https://as.example/token'',
      token_property = ''access_token'', token_type = JStr ''Bearer'',
      refreshToken_property = Prop ''refresh_token'',
      auth_redirect = Some \<lparr>callback = ''/login'', logout = ''/''\<rparr>,
      auth_watchLoggedIn = True\<rparr>"

definition sample_getProp :: "(string \<times> jsval) list \<Rightarrow> property \<Rightarrow> jsval" where
  "sample_getProp response p =
     (case p of PropFalse \<Rightarrow> JUndef
      | Prop k \<Rightarrow> (case map_of response k of None \<Rightarrow> JUndef | Some v \<Rightarrow> v))"

definition sample_env :: "(string \<rightharpoonup> jsval) \<Rightarrow> (error + (string \<times> jsval) list) \<Rightarrow> (string \<times> jsval) list env" where
  "sample_env query answer =
     \<lparr>normalizePath = (\<lambda>p. p), parseQuery = (\<lambda>s. Map.empty), encodeQuery = (\<lambda>q. ''q''),
      urlJoin = (\<lambda>a b. a @ b), removeTokenPrefix = (\<lambda>t ty. t), getProp = sample_getProp,
      auth_request = (\<lambda>r. answer), requrl = ''https://app.example'', app_baseURL = ''/'',
      process_server = False, route_path = ''/login'', route_query = query, route_hash = [],
      window_opener = False, window_open = (\<lambda>u n f. RefWindow False),
      clientWindowFeatures = (\<lambda>w h. ''toolbar=no''), encodeURIComponent = (\<lambda>s. s),
      sha256 = (\<lambda>s. replicate 32 0), randomString = (\<lambda>n. ''0123456789''),
      randomString_nonce = (\<lambda>n. ''abcdefghij''), getRandomValues_state = (\<lambda>i. 0),
      getRandomValues_verifier = (\<lambda>i. 1)\<rparr>"

definition sample_tokens :: "jsval \<Rightarrow> bool \<Rightarrow> token_view" where
  "sample_tokens refresh_token expired =
     \<lparr>token_sync = JStr ''t'', token_status_expired = False,
      refreshToken_get = refresh_token, refreshToken_status_expired = expired\<rparr>"

definition sample_arg :: login_arg where
  "sample_arg = \<lparr>arg_state = JUndef, arg_params = Map.empty, arg_nonce = JUndef\<rparr>"

text \<open>A world in which a login has left the given value as the stored state.\<close>

definition sample_world :: "jsval \<Rightarrow> world" where
  "sample_world stored = new_world\<lparr>storage := [''oauth2.state'' \<mapsto> stored]\<rparr>"

section \<open>Properties\<close>

subsection \<open>check\<close>

text \<open>
  C2. When a token is present and \<open>check\<close> is called with \<open>checkStatus = true\<close>, at most
  one of \<open>valid\<close>, \<open>tokenExpired\<close>, \<open>refreshTokenExpired\<close> is true in the result, and
  refresh-token expiry has priority: when both the refresh token and the access token are
  expired, the result has \<open>refreshTokenExpired = true\<close> and \<open>tokenExpired = false\<close>.
\<close>

theorem check_status_exclusive:
  assumes "truthy (token_sync tv)"
  shows "flags_set (check True tv) \<le> 1
    \<and> (refreshToken_status_expired tv \<and> token_status_expired tv \<longrightarrow>
           refreshTokenExpired (check True tv) \<and> \<not> tokenExpired (check True tv))"
  using assms by (simp add: check_def check_response_def flags_set_def Let_def)

theorem check_status_exclusive_witness:
  "truthy (token_sync \<lparr>token_sync = JStr ''Bearer t'', token_status_expired = True, refreshToken_get = JStr ''r'',
       refreshToken_status_expired = True\<rparr>)
   \<and> flags_set (check True \<lparr>token_sync = JStr ''Bearer t'', token_status_expired = True, refreshToken_get = JStr ''r'',
       refreshToken_status_expired = True\<rparr>) \<le> 1
   \<and> refreshTokenExpired (check True \<lparr>token_sync = JStr ''Bearer t'',
       token_status_expired = True, refreshToken_get = JStr ''r'', refreshToken_status_expired = True\<rparr>)
   \<and> \<not> tokenExpired (check True \<lparr>token_sync = JStr ''Bearer t'',
       token_status_expired = True, refreshToken_get = JStr ''r'', refreshToken_status_expired = True\<rparr>)"
  using check_status_exclusive [of "\<lparr>token_sync = JStr ''Bearer t'', token_status_expired = True, refreshToken_get = JStr ''r'',
       refreshToken_status_expired = True\<rparr>"]
  by simp

text \<open>
  C9. Every result of \<open>check\<close>, for every state of the tokens and both values of
  \<open>checkStatus\<close>, has \<open>isRefreshable = true\<close>, also when there is no token at all or
  the refresh token is expired.
\<close>

theorem check_isRefreshable: "isRefreshable (check checkStatus tv)"
  by (simp add: check_def check_response_def Let_def)

subsection \<open>generateRandomString\<close>

lemma hexdigit_roundtrip: "d < 16 \<Longrightarrow> hexval (hexdigit d) = d \<and> is_hex (hexdigit d)"
proof -
  assume "d < 16"
  then have "d \<in> set [0..<16]" by simp
  then have "d \<in> {0,1,2,3,4,5,6,7,8,9,10,11,12,13,14,15}"
    by (simp add: upt_rec numeral_eq_Suc)
  then show ?thesis
    by (auto simp: hexdigit_def hexval_def is_hex_def)
qed

lemma toString16_last: "\<exists>xs. toString16 n = xs @ [hexdigit (n mod 16)]"
  by (subst toString16.simps) simp

text \<open>The two characters kept of each element are the hex digits of its low byte.\<close>

lemma slice_last2_hex:
  "slice_last2 (CHR ''0'' # toString16 n) = [hexdigit (n div 16 mod 16), hexdigit (n mod 16)]"
proof (cases "n < 16")
  case True
  then have "toString16 n = [hexdigit n]" by (subst toString16.simps) simp
  with True show ?thesis by (simp add: slice_last2_def hexdigit_def)
next
  case False
  then have eq: "toString16 n = toString16 (n div 16) @ [hexdigit (n mod 16)]"
    by (subst toString16.simps) simp
  obtain ys where "toString16 (n div 16) = ys @ [hexdigit (n div 16 mod 16)]"
    using toString16_last by blast
  with eq show ?thesis by (simp add: slice_last2_def)
qed

lemma bytes_of_hex_pairs:
  "bytes_of_hex (concat (map (\<lambda>x. [hexdigit (g x div 16 mod 16), hexdigit (g x mod 16)]) xs))
     = map (\<lambda>x. g x mod 256) xs"
proof (induction xs)
  case Nil
  show ?case by simp
next
  case (Cons x xs)
  have "16 * (g x div 16 mod 16) + g x mod 16 = g x mod 256"
    using mod_mult2_eq [of "g x" 16 16] by simp
  with Cons show ?case by (simp add: hexdigit_roundtrip)
qed

lemma length_hex_pairs:
  "length (concat (map (\<lambda>x. [f x, h x]) xs)) = 2 * length xs"
  by (induction xs) simp_all

lemma is_hex_pairs:
  "list_all is_hex (concat (map (\<lambda>x. [hexdigit (f x mod 16), hexdigit (h x mod 16)]) xs))"
  by (induction xs) (simp_all add: hexdigit_roundtrip)

lemma generateRandomString_pairs:
  "generateRandomString rng =
     concat (map (\<lambda>i. [hexdigit (unat (rng i) div 16 mod 16), hexdigit (unat (rng i) mod 16)])
                 [0..<28])"
  unfolding generateRandomString_def by (simp only: map_map o_def slice_last2_hex)

text \<open>
  C6. Every call of \<open>generateRandomString\<close> returns a hex string that carries 28 bytes
  drawn from the random source: it has 56 characters, all of them hex digits, and read
  back two characters a byte it is the low byte of each of the 28 values that
  \<open>getRandomValues\<close> wrote, one byte per value.
\<close>

theorem generateRandomString_entropy:
  "length (generateRandomString getRandomValues) = 56
   \<and> list_all is_hex (generateRandomString getRandomValues)
   \<and> bytes_of_hex (generateRandomString getRandomValues)
        = map (\<lambda>i. unat (getRandomValues i) mod 256) [0..<28]"
proof -
  have "length (generateRandomString getRandomValues) = 56"
    by (simp only: generateRandomString_pairs length_hex_pairs length_upt)
  moreover have "list_all is_hex (generateRandomString getRandomValues)"
    by (simp only: generateRandomString_pairs is_hex_pairs)
  moreover have "bytes_of_hex (generateRandomString getRandomValues)
        = map (\<lambda>i. unat (getRandomValues i) mod 256) [0..<28]"
    by (simp only: generateRandomString_pairs bytes_of_hex_pairs)
  ultimately show ?thesis by blast
qed

subsection \<open>The world\<close>

lemma storage_emit [simp]: "storage (emit e w) = storage w"
  by (simp add: emit_def)

lemma log_emit [simp]: "log (emit e w) = log w @ [e]"
  by (simp add: emit_def)

lemma ref_emit [simp]: "clientWindowReference (emit e w) = clientWindowReference w"
  by (simp add: emit_def)

lemma storage_setUniversal_null [simp]:
  "storage (setUniversal key JNull w) = (storage w)(key := None)"
  by (simp add: setUniversal_def)

lemma log_setUniversal [simp]: "log (setUniversal key v w) = log w"
  by (simp add: setUniversal_def)

lemma ref_setUniversal [simp]:
  "clientWindowReference (setUniversal key v w) = clientWindowReference w"
  by (simp add: setUniversal_def)

lemma getUniversal_other [simp]:
  "key' \<noteq> key \<Longrightarrow> getUniversal key' (setUniversal key v w) = getUniversal key' w"
  by (simp add: getUniversal_def setUniversal_def)

lemma getUniversal_emit [simp]: "getUniversal key (emit e w) = getUniversal key w"
  by (simp add: getUniversal_def)

subsection \<open>#handleCallback\<close>

lemma storage_handleCallback_store [simp]:
  "storage (snd (handleCallback_store env opts token refreshToken w)) = storage w"
  by (simp add: handleCallback_store_def Let_def)

lemma handleCallback_store_writes:
  "usable token \<Longrightarrow>
     (\<exists>r. fst (handleCallback_store env opts token refreshToken w) = Inr r)
     \<and> (\<exists>rest. log (snd (handleCallback_store env opts token refreshToken w))
                  = log w @ Token_set token # rest)"
  by (simp add: handleCallback_store_def Let_def usable_def)

text \<open>
  Past its two guards, \<open>#handleCallback\<close> reads the stored state, deletes it, compares,
  and then either exchanges the code or goes on with the parameters of the URL.
\<close>

lemma handleCallback_guards:
  "on_callback_route env opts \<Longrightarrow>
   handleCallback env opts w =
     (let parsedQuery = merged_params env;
          token = get_field parsedQuery (token_property opts);
          refreshToken =
              (if truthy_prop (refreshToken_property opts)
               then (case refreshToken_property opts of
                       Prop p \<Rightarrow> get_field parsedQuery p | PropFalse \<Rightarrow> JUndef)
               else JUndef);
          state = getUniversal (name opts @ ''.state'') w;
          w1 = setUniversal (name opts @ ''.state'') JNull w
      in if truthy state \<and> get_field parsedQuery ''state'' \<noteq> state then (Inr JUndef, w1)
         else if code_exchange env opts then
           (let req = exchange_request env opts (get_field parsedQuery ''code'')
                        (stored_codeVerifier opts w);
                w2 = (if truthy (codeChallengeMethod opts)
                          \<and> codeChallengeMethod opts \<noteq> JStr ''implicit''
                      then setUniversal (name opts @ ''.pkce_code_verifier'') JNull w1 else w1);
                w3 = emit (Auth_request req) w2
            in case auth_request env req of
                 Inl e \<Rightarrow> (Inl e, w3)
               | Inr response \<Rightarrow>
                   handleCallback_store env opts
                     (js_or (getProp env response (Prop (token_property opts))) token)
                     (js_or (getProp env response (refreshToken_property opts)) refreshToken)
                     w3)
         else handleCallback_store env opts token refreshToken w1)"
  by (cases "auth_redirect opts")
     (auto simp add: on_callback_route_def handleCallback_def code_exchange_def
        stored_codeVerifier_def Let_def split: sum.split)

text \<open>
  C1, as amended. When \<open>#handleCallback\<close> handles a callback (it runs in the browser, on
  the callback route), the stored anti-forgery state is read and then deleted from the
  storage whether the comparison succeeds or not: afterwards the storage has no entry for
  it. When the stored state is truthy (a non-empty string, as \<open>login\<close> stores unless its
  caller overrides \<open>state\<close> with a falsy value) and differs from the \<open>state\<close> parameter
  of the callback, the callback is a silent no-op: the call returns nothing and leaves the
  world as it was but for the deleted state, so that no token is written to the Token or
  RefreshToken store, no reset is triggered and no redirect happens.
\<close>

theorem handleCallback_state_mismatch:
  assumes "on_callback_route env opts"
  shows "storage (snd (handleCallback env opts w)) (name opts @ ''.state'') = None
    \<and> (truthy (getUniversal (name opts @ ''.state'') w)
        \<and> get_field (merged_params env) ''state'' \<noteq> getUniversal (name opts @ ''.state'') w
       \<longrightarrow> handleCallback env opts w
             = (Inr JUndef, w\<lparr>storage := (storage w)(name opts @ ''.state'' := None)\<rparr>))"
proof -
  have neq: "name opts @ ''.pkce_code_verifier'' \<noteq> name opts @ ''.state''" by simp
  show ?thesis
    using neq
    by (auto simp add: handleCallback_guards [OF assms] Let_def setUniversal_def
          split: sum.splits)
qed

theorem handleCallback_state_mismatch_witness:
  "on_callback_route
     (sample_env [''state'' \<mapsto> JStr ''forged'', ''access_token'' \<mapsto> JStr ''T''] (Inr []))
     sample_options
   \<and> truthy (getUniversal (name sample_options @ ''.state'') (sample_world (JStr ''expected'')))
   \<and> get_field (merged_params
        (sample_env [''state'' \<mapsto> JStr ''forged'', ''access_token'' \<mapsto> JStr ''T''] (Inr [])))
        ''state''
       \<noteq> getUniversal (name sample_options @ ''.state'') (sample_world (JStr ''expected''))
   \<and> handleCallback
        (sample_env [''state'' \<mapsto> JStr ''forged'', ''access_token'' \<mapsto> JStr ''T''] (Inr []))
        sample_options (sample_world (JStr ''expected''))
       = (Inr JUndef, new_world)"
proof -
  let ?env = "sample_env [''state'' \<mapsto> JStr ''forged'', ''access_token'' \<mapsto> JStr ''T'']
                (Inr [])"
  let ?w = "sample_world (JStr ''expected'')"
  have r: "on_callback_route ?env sample_options"
    by (simp add: on_callback_route_def sample_env_def sample_options_def)
  have m: "truthy (getUniversal (name sample_options @ ''.state'') ?w)
           \<and> get_field (merged_params ?env) ''state''
               \<noteq> getUniversal (name sample_options @ ''.state'') ?w"
    by (simp add: getUniversal_def sample_world_def sample_options_def get_field_def
          merged_params_def sample_env_def new_world_def)
  have e: "?w\<lparr>storage := (storage ?w)(name sample_options @ ''.state'' := None)\<rparr> = new_world"
    by (simp add: sample_world_def sample_options_def new_world_def)
  from handleCallback_state_mismatch [OF r, of ?w] m
  have "handleCallback ?env sample_options ?w
          = (Inr JUndef, ?w\<lparr>storage := (storage ?w)(name sample_options @ ''.state'' := None)\<rparr>)"
    by blast
  with e r m show ?thesis by simp
qed

text \<open>
  The claim as the spec has it, for every stored state that exists, fails for a stored
  state that is falsy. \<open>login\<close> called with \<open>params: { state: '' }\<close> stores the empty
  string; a callback whose \<open>state\<close> parameter differs from it then passes the guard
  \<open>state &&\<close>, its token is written and the redirect happens.
\<close>

lemma login_stores_empty_state:
  "storage (snd (login (sample_env Map.empty (Inr [])) sample_options
                   (sample_arg\<lparr>arg_params := [''state'' \<mapsto> JStr []]\<rparr>) new_world))
     = storage (sample_world (JStr []))"
  by (simp add: login_def login_params_def login_nonce_def login_opts_def
        login_pkce_def Let_def get_field_def sample_env_def sample_options_def sample_arg_def
        js_or_def new_world_def sample_world_def setUniversal_def emit_def)

theorem handleCallback_state_mismatch_counterexample:
  "on_callback_route
     (sample_env [''state'' \<mapsto> JStr ''forged'', ''access_token'' \<mapsto> JStr ''T''] (Inr []))
     sample_options
   \<and> storage (sample_world (JStr [])) (name sample_options @ ''.state'') = Some (JStr [])
   \<and> get_field (merged_params
        (sample_env [''state'' \<mapsto> JStr ''forged'', ''access_token'' \<mapsto> JStr ''T''] (Inr [])))
        ''state''
       \<noteq> getUniversal (name sample_options @ ''.state'') (sample_world (JStr []))
   \<and> handleCallback
        (sample_env [''state'' \<mapsto> JStr ''forged'', ''access_token'' \<mapsto> JStr ''T''] (Inr []))
        sample_options (sample_world (JStr []))
       = (Inr (JBool True),
          new_world\<lparr>log := [Token_set (JStr ''T''), Auth_redirect ''home'']\<rparr>)"
  by (simp add: on_callback_route_def handleCallback_def handleCallback_store_def
        merged_params_def get_field_def getUniversal_def setUniversal_def emit_def Let_def
        sample_env_def sample_options_def sample_world_def new_world_def)

text \<open>
  C10, as amended. \<open>#handleCallback\<close> rejects a callback for a state mismatch only when
  the stored state is truthy. When none is stored (the entry is absent, so that it reads
  as \<open>undefined\<close>, or holds \<open>null\<close>; any falsy value behaves the same) the comparison is
  skipped, whatever the \<open>state\<close> parameter of the callback is, or if it has none. Then,
  when no code exchange takes place (the response type is not \<open>code\<close>, or the callback
  has no \<open>code\<close>), a usable token among the merged parameters is written to the Token
  store. When a code exchange takes place and succeeds, the token written is the one of
  the response when that one is truthy, and the one of the merged parameters otherwise,
  provided it is usable. When the exchange request fails, the callback rejects with the
  error of the request and nothing is written to the Token store.
\<close>

theorem handleCallback_no_stored_state:
  assumes "on_callback_route env opts"
      and "\<not> truthy (getUniversal (name opts @ ''.state'') w)"
  shows "(\<not> code_exchange env opts
          \<and> usable (get_field (merged_params env) (token_property opts))
          \<longrightarrow> (\<exists>r. fst (handleCallback env opts w) = Inr r)
              \<and> (\<exists>rest. log (snd (handleCallback env opts w)) =
                    log w @ Token_set (get_field (merged_params env) (token_property opts))
                              # rest))
    \<and> (code_exchange env opts
          \<and> auth_request env
               (exchange_request env opts (get_field (merged_params env) ''code'')
                  (stored_codeVerifier opts w)) = Inr response
          \<and> usable (js_or (getProp env response (Prop (token_property opts)))
                      (get_field (merged_params env) (token_property opts)))
          \<longrightarrow> (\<exists>r. fst (handleCallback env opts w) = Inr r)
              \<and> (\<exists>rest. log (snd (handleCallback env opts w)) =
                    log w @ Auth_request
                              (exchange_request env opts (get_field (merged_params env) ''code'')
                                 (stored_codeVerifier opts w))
                          # Token_set (js_or (getProp env response (Prop (token_property opts)))
                                        (get_field (merged_params env) (token_property opts)))
                          # rest))
    \<and> (code_exchange env opts
          \<and> auth_request env
               (exchange_request env opts (get_field (merged_params env) ''code'')
                  (stored_codeVerifier opts w)) = Inl e
          \<longrightarrow> fst (handleCallback env opts w) = Inl e
              \<and> log (snd (handleCallback env opts w)) =
                    log w @ [Auth_request
                              (exchange_request env opts (get_field (merged_params env) ''code'')
                                 (stored_codeVerifier opts w))])"
proof (intro conjI impI)
  let ?tok = "get_field (merged_params env) (token_property opts)"
  assume a: "\<not> code_exchange env opts \<and> usable ?tok"
  then have u: "usable ?tok" by simp
  from a assms(2) obtain rt w1 where
    eq: "handleCallback env opts w = handleCallback_store env opts ?tok rt w1"
    and lg: "log w1 = log w"
    by (simp add: handleCallback_guards [OF assms(1)] Let_def)
  from handleCallback_store_writes [OF u, of env opts rt w1] eq
  show "\<exists>r. fst (handleCallback env opts w) = Inr r" by simp
  from handleCallback_store_writes [OF u, of env opts rt w1] eq lg
  show "\<exists>rest. log (snd (handleCallback env opts w)) = log w @ Token_set ?tok # rest"
    by simp
next
  let ?tok = "js_or (getProp env response (Prop (token_property opts)))
                (get_field (merged_params env) (token_property opts))"
  let ?req = "exchange_request env opts (get_field (merged_params env) ''code'')
                (stored_codeVerifier opts w)"
  assume a: "code_exchange env opts \<and> auth_request env ?req = Inr response \<and> usable ?tok"
  then have u: "usable ?tok" by simp
  from a assms(2) obtain rt w3 where
    eq: "handleCallback env opts w = handleCallback_store env opts ?tok rt w3"
    and lg: "log w3 = log w @ [Auth_request ?req]"
    by (simp add: handleCallback_guards [OF assms(1)] Let_def)
  from handleCallback_store_writes [OF u, of env opts rt w3] eq
  show "\<exists>r. fst (handleCallback env opts w) = Inr r" by simp
  from handleCallback_store_writes [OF u, of env opts rt w3] eq lg
  show "\<exists>rest. log (snd (handleCallback env opts w)) =
           log w @ Auth_request ?req # Token_set ?tok # rest"
    by simp
next
  let ?req = "exchange_request env opts (get_field (merged_params env) ''code'')
                (stored_codeVerifier opts w)"
  assume a: "code_exchange env opts \<and> auth_request env ?req = Inl e"
  with assms(2) show "fst (handleCallback env opts w) = Inl e"
    by (simp add: handleCallback_guards [OF assms(1)] Let_def)
  from a assms(2) show "log (snd (handleCallback env opts w)) = log w @ [Auth_request ?req]"
    by (simp add: handleCallback_guards [OF assms(1)] Let_def)
qed

theorem handleCallback_no_stored_state_witness:
  "on_callback_route
     (sample_env [''state'' \<mapsto> JStr ''anything'', ''access_token'' \<mapsto> JStr ''T''] (Inr []))
     sample_options
   \<and> \<not> truthy (getUniversal (name sample_options @ ''.state'') new_world)
   \<and> \<not> truthy (getUniversal (name sample_options @ ''.state'') (sample_world JNull))
   \<and> Token_set (JStr ''T'')
       \<in> set (log (snd (handleCallback
           (sample_env [''state'' \<mapsto> JStr ''anything'', ''access_token'' \<mapsto> JStr ''T''] (Inr []))
           sample_options new_world)))
   \<and> Token_set (JStr ''T'')
       \<in> set (log (snd (handleCallback
           (sample_env [''state'' \<mapsto> JStr ''anything'', ''access_token'' \<mapsto> JStr ''T''] (Inr []))
           sample_options (sample_world JNull))))
   \<and> Token_set (JStr ''T1'')
       \<in> set (log (snd (handleCallback
           (sample_env [''code'' \<mapsto> JStr ''abc''] (Inr [(''access_token'', JStr ''T1'')]))
           (sample_options\<lparr>responseType := ''code''\<rparr>) new_world)))"
proof -
  let ?env = "sample_env [''state'' \<mapsto> JStr ''anything'', ''access_token'' \<mapsto> JStr ''T''] (Inr [])"
  let ?env2 = "sample_env [''code'' \<mapsto> JStr ''abc''] (Inr [(''access_token'', JStr ''T1'')])"
  let ?opts2 = "sample_options\<lparr>responseType := ''code''\<rparr>"
  have r: "on_callback_route ?env sample_options"
    by (simp add: on_callback_route_def sample_env_def sample_options_def)
  have r2: "on_callback_route ?env2 ?opts2"
    by (simp add: on_callback_route_def sample_env_def sample_options_def)
  have n: "\<not> truthy (getUniversal (name sample_options @ ''.state'') new_world)"
    by (simp add: getUniversal_def new_world_def)
  have n': "\<not> truthy (getUniversal (name sample_options @ ''.state'') (sample_world JNull))"
    by (simp add: getUniversal_def sample_world_def sample_options_def)
  have n2: "\<not> truthy (getUniversal (name ?opts2 @ ''.state'') new_world)"
    by (simp add: getUniversal_def new_world_def)
  have t: "get_field (merged_params ?env) (token_property sample_options) = JStr ''T''"
    by (simp add: get_field_def merged_params_def sample_env_def sample_options_def)
  have a: "\<not> code_exchange ?env sample_options
           \<and> usable (get_field (merged_params ?env) (token_property sample_options))"
    by (simp add: t usable_def) (simp add: code_exchange_def sample_options_def)
  have b: "code_exchange ?env2 ?opts2
          \<and> auth_request ?env2
               (exchange_request ?env2 ?opts2 (get_field (merged_params ?env2) ''code'')
                  (stored_codeVerifier ?opts2 new_world)) = Inr [(''access_token'', JStr ''T1'')]
          \<and> usable (js_or (getProp ?env2 [(''access_token'', JStr ''T1'')] (Prop (token_property ?opts2)))
                      (get_field (merged_params ?env2) (token_property ?opts2)))"
    by (simp add: code_exchange_def sample_env_def sample_options_def get_field_def
          merged_params_def usable_def js_or_def sample_getProp_def)
  have t2: "js_or (getProp ?env2 [(''access_token'', JStr ''T1'')] (Prop (token_property ?opts2)))
                      (get_field (merged_params ?env2) (token_property ?opts2)) = JStr ''T1''"
    by (simp add: sample_env_def sample_options_def js_or_def sample_getProp_def)
  from handleCallback_no_stored_state [OF r n, of "[]"] a t
  have 1: "Token_set (JStr ''T'') \<in> set (log (snd (handleCallback ?env sample_options new_world)))"
    by auto
  from handleCallback_no_stored_state [OF r n', of "[]"] a t
  have 2: "Token_set (JStr ''T'')
             \<in> set (log (snd (handleCallback ?env sample_options (sample_world JNull))))"
    by auto
  from handleCallback_no_stored_state [OF r2 n2, of "[(''access_token'', JStr ''T1'')]"] b t2
  have 3: "Token_set (JStr ''T1'') \<in> set (log (snd (handleCallback ?env2 ?opts2 new_world)))"
    by auto
  from r n n' 1 2 3 show ?thesis by blast
qed

text \<open>
  The claim as the spec has it, that every callback whose merged parameters hold a usable
  token has that token written, fails on the authorization-code path. With response type
  \<open>code\<close>, nothing stored, and a URL that carries \<open>code\<close> and \<open>access_token=U\<close>: when the
  exchange request fails the callback rejects and no token is written; when the response
  holds the token \<open>T1\<close>, it is \<open>T1\<close> that is written, and \<open>U\<close> is not.
\<close>

theorem handleCallback_no_stored_state_counterexample:
  "on_callback_route
     (sample_env [''code'' \<mapsto> JStr ''abc'', ''access_token'' \<mapsto> JStr ''U'']
        (Inl (RequestError ''500'')))
     (sample_options\<lparr>responseType := ''code''\<rparr>)
   \<and> storage new_world (name (sample_options\<lparr>responseType := ''code''\<rparr>) @ ''.state'') = None
   \<and> usable (get_field (merged_params
        (sample_env [''code'' \<mapsto> JStr ''abc'', ''access_token'' \<mapsto> JStr ''U'']
           (Inl (RequestError ''500''))))
        (token_property (sample_options\<lparr>responseType := ''code''\<rparr>)))
   \<and> fst (handleCallback
        (sample_env [''code'' \<mapsto> JStr ''abc'', ''access_token'' \<mapsto> JStr ''U'']
           (Inl (RequestError ''500'')))
        (sample_options\<lparr>responseType := ''code''\<rparr>) new_world) = Inl (RequestError ''500'')
   \<and> log (snd (handleCallback
        (sample_env [''code'' \<mapsto> JStr ''abc'', ''access_token'' \<mapsto> JStr ''U'']
           (Inl (RequestError ''500'')))
        (sample_options\<lparr>responseType := ''code''\<rparr>) new_world))
       = [Auth_request (exchange_request
            (sample_env [''code'' \<mapsto> JStr ''abc'', ''access_token'' \<mapsto> JStr ''U'']
               (Inl (RequestError ''500'')))
            (sample_options\<lparr>responseType := ''code''\<rparr>) (JStr ''abc'') JUndef)]
   \<and> log (snd (handleCallback
        (sample_env [''code'' \<mapsto> JStr ''abc'', ''access_token'' \<mapsto> JStr ''U'']
           (Inr [(''access_token'', JStr ''T1'')]))
        (sample_options\<lparr>responseType := ''code''\<rparr>) new_world))
       = [Auth_request (exchange_request
            (sample_env [''code'' \<mapsto> JStr ''abc'', ''access_token'' \<mapsto> JStr ''U'']
               (Inr [(''access_token'', JStr ''T1'')]))
            (sample_options\<lparr>responseType := ''code''\<rparr>) (JStr ''abc'') JUndef),
          Token_set (JStr ''T1''), Auth_redirect ''home'']"
  by (simp add: on_callback_route_def handleCallback_def handleCallback_store_def
        merged_params_def get_field_def getUniversal_def setUniversal_def emit_def Let_def
        sample_env_def sample_options_def new_world_def usable_def js_or_def
        sample_getProp_def)

subsection \<open>refreshTokens\<close>

text \<open>
  C5. \<open>refreshTokens\<close> is a no-op when there is no refresh token: it returns without
  error and leaves the world as it is. When there is a refresh token and it is expired,
  it calls \<open>$auth.reset()\<close> and throws \<open>ExpiredAuthSessionError\<close>, and does nothing
  else: no request is issued. Otherwise it clears the authorization header, posts the
  refresh exchange to the token endpoint and, from the response, writes the token to the
  Token store and the refresh token, when the response has one, to the RefreshToken store;
  when the request fails, the error goes to \<open>callOnError\<close> and is rethrown, and nothing
  is written.
\<close>

theorem refreshTokens_cases:
  "(\<not> truthy (refreshToken_get tv) \<longrightarrow> refreshTokens env opts tv w = (Inr None, w))
   \<and> (truthy (refreshToken_get tv) \<and> refreshToken_status_expired tv \<longrightarrow>
        fst (refreshTokens env opts tv w) = Inl ExpiredAuthSessionError
        \<and> log (snd (refreshTokens env opts tv w)) = log w @ [Auth_reset])
   \<and> (truthy (refreshToken_get tv) \<and> \<not> refreshToken_status_expired tv \<longrightarrow>
        refresh_request env opts (refreshToken_get tv) =
          \<lparr>req_method = ''post'', req_url = endpoints_token opts, req_baseURL = [],
           req_headers = [(''Content-Type'', ''application/x-www-form-urlencoded'')],
           req_body =
             [(''refresh_token'', removeTokenPrefix env (refreshToken_get tv) (token_type opts)),
              (''scopes'', JStr (scope opts)),
              (''client_id'', clientId opts),
              (''grant_type'', JStr ''refresh_token'')]\<rparr>
        \<and> (case auth_request env (refresh_request env opts (refreshToken_get tv)) of
           Inr response \<Rightarrow>
             fst (refreshTokens env opts tv w) = Inr (Some response)
             \<and> log (snd (refreshTokens env opts tv w)) =
                 log w @ [RequestHandler_clearHeader,
                          Auth_request (refresh_request env opts (refreshToken_get tv)),
                          Token_set (getProp env response (Prop (token_property opts)))]
                   @ (if truthy (getProp env response (refreshToken_property opts))
                      then [RefreshToken_set (getProp env response (refreshToken_property opts))]
                      else [])
         | Inl e \<Rightarrow>
             fst (refreshTokens env opts tv w) = Inl e
             \<and> log (snd (refreshTokens env opts tv w)) =
                 log w @ [RequestHandler_clearHeader,
                          Auth_request (refresh_request env opts (refreshToken_get tv)),
                          Auth_callOnError e]))"
  by (simp add: refreshTokens_def updateTokens_def refresh_request_def Let_def
        split: sum.split)

theorem refreshTokens_cases_witness:
  "\<not> truthy (refreshToken_get (sample_tokens JUndef False))
   \<and> refreshTokens (sample_env Map.empty (Inr [])) sample_options (sample_tokens JUndef False)
        new_world = (Inr None, new_world)
   \<and> truthy (refreshToken_get (sample_tokens (JStr ''R0'') True))
   \<and> refreshToken_status_expired (sample_tokens (JStr ''R0'') True)
   \<and> fst (refreshTokens (sample_env Map.empty (Inr [])) sample_options
             (sample_tokens (JStr ''R0'') True) new_world) = Inl ExpiredAuthSessionError
   \<and> log (snd (refreshTokens (sample_env Map.empty (Inr [])) sample_options
             (sample_tokens (JStr ''R0'') True) new_world)) = [Auth_reset]
   \<and> truthy (refreshToken_get (sample_tokens (JStr ''R0'') False))
   \<and> \<not> refreshToken_status_expired (sample_tokens (JStr ''R0'') False)
   \<and> log (snd (refreshTokens
        (sample_env Map.empty (Inr [(''access_token'', JStr ''T1''), (''refresh_token'', JStr ''R1'')]))
        sample_options (sample_tokens (JStr ''R0'') False) new_world))
       = [RequestHandler_clearHeader,
          Auth_request (refresh_request
            (sample_env Map.empty (Inr [(''access_token'', JStr ''T1''), (''refresh_token'', JStr ''R1'')]))
            sample_options (JStr ''R0'')),
          Token_set (JStr ''T1''), RefreshToken_set (JStr ''R1'')]"
proof -
  let ?env = "sample_env Map.empty (Inr [])"
  let ?env2 = "sample_env Map.empty
                 (Inr [(''access_token'', JStr ''T1''), (''refresh_token'', JStr ''R1'')])"
  have a: "\<not> truthy (refreshToken_get (sample_tokens JUndef False))"
    by (simp add: sample_tokens_def)
  have b: "truthy (refreshToken_get (sample_tokens (JStr ''R0'') True))
           \<and> refreshToken_status_expired (sample_tokens (JStr ''R0'') True)"
    by (simp add: sample_tokens_def)
  have c: "truthy (refreshToken_get (sample_tokens (JStr ''R0'') False))
           \<and> \<not> refreshToken_status_expired (sample_tokens (JStr ''R0'') False)"
    by (simp add: sample_tokens_def)
  have g: "refreshToken_get (sample_tokens (JStr ''R0'') False) = JStr ''R0''"
    by (simp add: sample_tokens_def)
  have q: "auth_request ?env2 (refresh_request ?env2 sample_options (JStr ''R0''))
             = Inr [(''access_token'', JStr ''T1''), (''refresh_token'', JStr ''R1'')]"
    by (simp add: sample_env_def)
  have p: "getProp ?env2 [(''access_token'', JStr ''T1''), (''refresh_token'', JStr ''R1'')]
             (Prop (token_property sample_options)) = JStr ''T1''
           \<and> getProp ?env2 [(''access_token'', JStr ''T1''), (''refresh_token'', JStr ''R1'')]
             (refreshToken_property sample_options) = JStr ''R1''"
    by (simp add: sample_env_def sample_options_def sample_getProp_def)
  have l: "log new_world = []" by (simp add: new_world_def)
  from refreshTokens_cases [of "sample_tokens JUndef False" ?env sample_options new_world] a
  have 1: "refreshTokens ?env sample_options (sample_tokens JUndef False) new_world
             = (Inr None, new_world)" by blast
  from refreshTokens_cases [of "sample_tokens (JStr ''R0'') True" ?env sample_options new_world] b l
  have 2: "fst (refreshTokens ?env sample_options (sample_tokens (JStr ''R0'') True) new_world)
             = Inl ExpiredAuthSessionError
           \<and> log (snd (refreshTokens ?env sample_options (sample_tokens (JStr ''R0'') True)
                new_world)) = [Auth_reset]" by simp
  from refreshTokens_cases [of "sample_tokens (JStr ''R0'') False" ?env2 sample_options new_world]
    c g q p l
  have 3: "log (snd (refreshTokens ?env2 sample_options (sample_tokens (JStr ''R0'') False)
             new_world))
       = [RequestHandler_clearHeader,
          Auth_request (refresh_request ?env2 sample_options (JStr ''R0'')),
          Token_set (JStr ''T1''), RefreshToken_set (JStr ''R1'')]"
    by simp
  from a b c 1 2 3 show ?thesis by blast
qed

text \<open>One call of \<open>refreshTokens\<close> asks the token endpoint at most once.\<close>

lemma refreshTokens_one_request:
  "length (filter is_request (log (snd (refreshTokens env opts tv w))))
     \<le> Suc (length (filter is_request (log w)))"
  by (simp add: refreshTokens_def updateTokens_def Let_def split: sum.split)

subsection \<open>pkceChallengeFromVerifier\<close>

text \<open>
  With the plain method the challenge is the verifier. With S256 it is the base64url
  encoding of the digest: no \<open>+\<close>, no \<open>/\<close> and no \<open>=\<close> in it, and four characters for
  every three bytes, rounded up, so 43 characters for the 32 bytes of a SHA-256 digest.
  It follows that the challenge differs from every verifier that is not 43 characters
  long, and so from every verifier \<open>login\<close> generates, which has 56.
\<close>

lemma pkceChallengeFromVerifier_plain: "pkceChallengeFromVerifier digest v False = v"
  by (simp add: pkceChallengeFromVerifier_def)

lemma set_strip_trailing_eq: "set (strip_trailing_eq s) \<subseteq> set s"
  using set_dropWhileD [of _ "\<lambda>c. c = CHR ''=''" "rev s"]
  by (auto simp add: strip_trailing_eq_def)

lemma strip_trailing_eq_last:
  "strip_trailing_eq s \<noteq> [] \<Longrightarrow> last (strip_trailing_eq s) \<noteq> CHR ''=''"
  using hd_dropWhile [of "\<lambda>c. c = CHR ''=''" "rev s"]
  by (simp add: strip_trailing_eq_def last_rev)

lemma replace_all_absent: "x \<noteq> y \<Longrightarrow> x \<notin> set (replace_all x y s)"
  by (auto simp add: replace_all_def)

lemma replace_all_keeps_absent: "c \<notin> set s \<Longrightarrow> c \<noteq> y \<Longrightarrow> c \<notin> set (replace_all x y s)"
  by (auto simp add: replace_all_def)

lemma base64UrlEncode_url_safe:
  "CHR ''+'' \<notin> set (base64UrlEncode str) \<and> CHR ''/'' \<notin> set (base64UrlEncode str)
   \<and> (base64UrlEncode str \<noteq> [] \<longrightarrow> last (base64UrlEncode str) \<noteq> CHR ''='')"
proof -
  let ?a = "replace_all (CHR ''+'') (CHR ''-'') (btoa (map unat str))"
  let ?b = "replace_all (CHR ''/'') (CHR ''_'') ?a"
  have "CHR ''+'' \<notin> set ?a" by (rule replace_all_absent) simp
  then have "CHR ''+'' \<notin> set ?b" by (rule replace_all_keeps_absent) simp
  moreover have "CHR ''/'' \<notin> set ?b" by (rule replace_all_absent) simp
  ultimately have "CHR ''+'' \<notin> set (strip_trailing_eq ?b) \<and> CHR ''/'' \<notin> set (strip_trailing_eq ?b)"
    using set_strip_trailing_eq [of ?b] by blast
  then show ?thesis
    using strip_trailing_eq_last [of ?b] by (simp add: base64UrlEncode_def)
qed

lemma b64char_not_eq: "b64char i \<noteq> CHR ''=''"
proof -
  have "i mod 64 < length ''ABCDEFGHIJKLMNOPQRSTUVWXYZabcdefghijklmnopqrstuvwxyz0123456789+/''"
    by simp
  then have "b64char i \<in> set ''ABCDEFGHIJKLMNOPQRSTUVWXYZabcdefghijklmnopqrstuvwxyz0123456789+/''"
    unfolding b64char_def by (rule nth_mem)
  then show ?thesis by auto
qed

lemma eq_not_b64char: "CHR ''='' \<noteq> b64char i"
  by (rule not_sym) (rule b64char_not_eq)

lemma btoa_shape:
  "\<exists>body pad. btoa xs = body @ pad \<and> CHR ''='' \<notin> set body \<and> set pad \<subseteq> {CHR ''=''}
      \<and> length body = (4 * length xs + 2) div 3"
proof (induction xs rule: btoa.induct)
  case 1
  show ?case by simp
next
  case (2 a)
  have "btoa [a] = [b64char (a div 4), b64char ((a mod 4) * 16)] @ [CHR ''='', CHR ''='']"
    by simp
  then show ?case by (intro exI conjI) (assumption, simp_all add: eq_not_b64char)
next
  case (3 a b)
  have "btoa [a, b] = [b64char (a div 4), b64char ((a mod 4) * 16 + b div 16),
          b64char ((b mod 16) * 4)] @ [CHR ''='']"
    by simp
  then show ?case by (intro exI conjI) (assumption, simp_all add: eq_not_b64char)
next
  case (4 a b c bs)
  then obtain body pad where s: "btoa bs = body @ pad" "CHR ''='' \<notin> set body"
    "set pad \<subseteq> {CHR ''=''}" "length body = (4 * length bs + 2) div 3"
    by blast
  let ?h = "[b64char (a div 4), b64char ((a mod 4) * 16 + b div 16),
      b64char ((b mod 16) * 4 + c div 64), b64char (c mod 64)]"
  have "btoa (a # b # c # bs) = (?h @ body) @ pad" using s(1) by simp
  moreover have "CHR ''='' \<notin> set (?h @ body)" using s(2) by (simp add: eq_not_b64char)
  moreover have "length (?h @ body) = (4 * length (a # b # c # bs) + 2) div 3"
    using s(4) by simp
  ultimately show ?case using s(3) by blast
qed

lemma strip_trailing_eq_pad:
  assumes "CHR ''='' \<notin> set body" and "set pad \<subseteq> {CHR ''=''}"
  shows "strip_trailing_eq (body @ pad) = body"
proof -
  have "dropWhile (\<lambda>c. c = CHR ''='') (rev pad @ rev body)
          = dropWhile (\<lambda>c. c = CHR ''='') (rev body)"
    using assms(2) by (intro dropWhile_append2) auto
  also have "\<dots> = rev body"
    using assms(1) by (cases "rev body") auto
  finally show ?thesis by (simp add: strip_trailing_eq_def)
qed

lemma length_base64UrlEncode:
  "length (base64UrlEncode str) = (4 * length str + 2) div 3
   \<and> CHR ''='' \<notin> set (base64UrlEncode str)"
proof -
  obtain body pad where s: "btoa (map unat str) = body @ pad" "CHR ''='' \<notin> set body"
    "set pad \<subseteq> {CHR ''=''}" "length body = (4 * length (map unat str) + 2) div 3"
    using btoa_shape by blast
  let ?r = "\<lambda>s. replace_all (CHR ''/'') (CHR ''_'') (replace_all (CHR ''+'') (CHR ''-'') s)"
  have pad: "?r pad = pad"
    unfolding replace_all_def map_map by (rule map_idI) (use s(3) in auto)
  have body: "CHR ''='' \<notin> set (?r body)"
    using s(2) by (auto simp add: replace_all_def)
  have "?r (body @ pad) = ?r body @ pad"
    using pad by (simp add: replace_all_def)
  then have "base64UrlEncode str = strip_trailing_eq (?r body @ pad)"
    by (simp add: base64UrlEncode_def s(1))
  also have "\<dots> = ?r body" using body s(3) by (rule strip_trailing_eq_pad)
  finally have "base64UrlEncode str = ?r body" .
  then show ?thesis using s(4) body by (simp add: replace_all_def)
qed

lemma pkceChallengeFromVerifier_S256:
  "pkceChallengeFromVerifier digest v True = base64UrlEncode (digest v)
   \<and> CHR ''+'' \<notin> set (pkceChallengeFromVerifier digest v True)
   \<and> CHR ''/'' \<notin> set (pkceChallengeFromVerifier digest v True)
   \<and> CHR ''='' \<notin> set (pkceChallengeFromVerifier digest v True)"
  using base64UrlEncode_url_safe [of "digest v"] length_base64UrlEncode [of "digest v"]
  by (simp add: pkceChallengeFromVerifier_def)

lemma pkceChallengeFromVerifier_differs:
  "length (digest v) = 32 \<Longrightarrow> length v \<noteq> 43 \<Longrightarrow> pkceChallengeFromVerifier digest v True \<noteq> v"
proof -
  assume a: "length (digest v) = 32" and b: "length v \<noteq> 43"
  have "length (pkceChallengeFromVerifier digest v True) = 43"
    by (simp add: pkceChallengeFromVerifier_def length_base64UrlEncode a)
  with b show ?thesis by auto
qed

lemma length_generateRandomString: "length (generateRandomString rng) = 56"
  by (simp only: generateRandomString_pairs length_hex_pairs length_upt)

lemma pkceChallengeFromVerifier_login_verifier:
  assumes "length (digest (generateRandomString rng)) = 32"
  shows "pkceChallengeFromVerifier digest (generateRandomString rng) True
           \<noteq> generateRandomString rng"
proof -
  have "length (generateRandomString rng) \<noteq> 43"
    by (simp add: length_generateRandomString)
  with assms show ?thesis by (rule pkceChallengeFromVerifier_differs)
qed

subsection \<open>login\<close>

lemma starts_with_iff: "starts_with s sub \<longleftrightarrow> (\<exists>r. s = sub @ r)"
  by (induction s sub rule: starts_with.induct) auto

lemma js_includes_iff: "js_includes s sub \<longleftrightarrow> (\<exists>p r. s = p @ sub @ r)"
proof (induction s)
  case Nil
  show ?case by auto
next
  case (Cons c s)
  show ?case
  proof
    assume "js_includes (c # s) sub"
    then consider "starts_with (c # s) sub" | "js_includes s sub" by auto
    then show "\<exists>p r. c # s = p @ sub @ r"
    proof cases
      case 1
      then obtain r where "c # s = sub @ r" by (auto simp: starts_with_iff)
      then have "c # s = [] @ sub @ r" by simp
      then show ?thesis by blast
    next
      case 2
      then obtain p r where "s = p @ sub @ r" using Cons by blast
      then have "c # s = (c # p) @ sub @ r" by simp
      then show ?thesis by blast
    qed
  next
    assume "\<exists>p r. c # s = p @ sub @ r"
    then obtain p r where e: "c # s = p @ sub @ r" by blast
    show "js_includes (c # s) sub"
    proof (cases p)
      case Nil
      with e have "starts_with (c # s) sub" by (auto simp: starts_with_iff)
      then show ?thesis by simp
    next
      case (Cons d p')
      with e have "s = p' @ sub @ r" by simp
      then have "js_includes s sub" using Cons.IH by blast
      then show ?thesis by simp
    qed
  qed
qed

lemma id_token_includes_token:
  "js_includes s ''id_token'' \<Longrightarrow> js_includes s ''token''"
proof -
  assume "js_includes s ''id_token''"
  then obtain p r where "s = p @ ''id_token'' @ r" by (auto simp: js_includes_iff)
  then have "s = (p @ ''id_'') @ ''token'' @ r" by simp
  then show ?thesis unfolding js_includes_iff by blast
qed

lemma upd_if_other:
  "k' \<noteq> k \<Longrightarrow> (if c then m(k \<mapsto> v) else m) k' = m k'"
  by simp

lemma login_opts_nonce: "login_opts env options arg ''nonce'' = arg_params arg ''nonce''"
  by (simp add: login_opts_def Let_def upd_if_other map_add_def split: option.split)

lemma login_opts_response_type:
  "get_field (login_opts env options arg) ''response_type'' =
     (case arg_params arg ''response_type'' of
        None \<Rightarrow> JStr (responseType options) | Some v \<Rightarrow> v)"
  by (simp add: login_opts_def Let_def upd_if_other map_add_def get_field_def
        split: option.split)

lemma login_nonce_result:
  "login_nonce env arg opts = Inr opts3 \<Longrightarrow>
     \<exists>rt. get_field opts ''response_type'' = JStr rt
        \<and> get_field opts3 ''response_type'' = JStr rt
        \<and> opts3 ''nonce'' =
             (if js_includes rt ''token''
              then Some (js_or (arg_nonce arg) (JStr (randomString_nonce env 10)))
              else opts ''nonce'')"
  by (cases "get_field opts ''response_type''")
     (auto simp add: login_nonce_def get_field_def id_token_includes_token split: if_splits)

lemma login_pkce_other:
  "k \<noteq> ''code_challenge'' \<Longrightarrow> fst (login_pkce env options opts w) k = opts k"
  by (simp add: login_pkce_def Let_def)

lemma login_params_other:
  assumes "login_params env options arg w = Inr (opts, w')"
      and "k \<noteq> ''code_challenge''" "k \<noteq> ''response_mode''" "k \<noteq> ''acr_values''"
  shows "\<exists>opts3. login_nonce env arg (login_opts env options arg) = Inr opts3 \<and> opts k = opts3 k"
proof (cases "login_nonce env arg (login_opts env options arg)")
  case (Inl e)
  with assms(1) show ?thesis by (simp add: login_params_def)
next
  case (Inr opts3)
  obtain opts4 w1 where p: "login_pkce env options opts3 w = (opts4, w1)"
    by (cases "login_pkce env options opts3 w")
  have "opts4 k = opts3 k" using login_pkce_other [OF assms(2), of env options opts3 w] p by simp
  moreover have "opts k = opts4 k"
    using assms Inr p by (auto simp add: login_params_def Let_def)
  ultimately show ?thesis using Inr by simp
qed

lemma login_params_nonce:
  assumes "login_params env options arg w = Inr (opts, w')"
  shows "\<exists>rt. get_field opts ''response_type'' = JStr rt
           \<and> opts ''nonce'' =
               (if js_includes rt ''token''
                then Some (js_or (arg_nonce arg) (JStr (randomString_nonce env 10)))
                else arg_params arg ''nonce'')"
proof -
  obtain opts3 where n: "login_nonce env arg (login_opts env options arg) = Inr opts3"
    and k1: "opts ''nonce'' = opts3 ''nonce''"
    using login_params_other [OF assms, of "''nonce''"] by auto
  obtain opts3' where n': "login_nonce env arg (login_opts env options arg) = Inr opts3'"
    and k2: "opts ''response_type'' = opts3' ''response_type''"
    using login_params_other [OF assms, of "''response_type''"] by auto
  from n n' have "opts3' = opts3" by simp
  with k2 have k2': "get_field opts ''response_type'' = get_field opts3 ''response_type''"
    by (simp add: get_field_def)
  from login_nonce_result [OF n] k1 k2' show ?thesis
    by (auto simp add: login_opts_nonce)
qed

text \<open>
  C7, as amended. \<open>login\<close> sets the \<open>nonce\<close> parameter of the authorization request
  exactly when the \<open>response_type\<close> of the request contains \<open>token\<close>: that is so for
  every response type that implies an identity token (\<open>id_token\<close> contains \<open>token\<close>),
  and also for the plain \<open>token\<close> type, the default. For a response type without
  \<open>token\<close>, such as \<open>code\<close>, \<open>login\<close> adds no nonce: the request has one only if the
  caller passed it in \<open>params\<close>.
\<close>

theorem login_nonce_rule:
  assumes "login_params env options arg w = Inr (opts, w')"
  shows "(\<exists>rt. get_field opts ''response_type'' = JStr rt
            \<and> opts ''nonce'' =
                (if js_includes rt ''token''
                 then Some (js_or (arg_nonce arg) (JStr (randomString_nonce env 10)))
                 else arg_params arg ''nonce'')
            \<and> (spec_implies_identity_token rt \<longrightarrow> js_includes rt ''token''))
       \<and> (responseType options = ''code'' \<and> arg_params arg ''response_type'' = None
            \<and> arg_params arg ''nonce'' = None \<longrightarrow> opts ''nonce'' = None)"
proof -
  obtain rt where rt: "get_field opts ''response_type'' = JStr rt"
    and n: "opts ''nonce'' =
                (if js_includes rt ''token''
                 then Some (js_or (arg_nonce arg) (JStr (randomString_nonce env 10)))
                 else arg_params arg ''nonce'')"
    using login_params_nonce [OF assms] by blast
  have first: "\<exists>rt. get_field opts ''response_type'' = JStr rt
            \<and> opts ''nonce'' =
                (if js_includes rt ''token''
                 then Some (js_or (arg_nonce arg) (JStr (randomString_nonce env 10)))
                 else arg_params arg ''nonce'')
            \<and> (spec_implies_identity_token rt \<longrightarrow> js_includes rt ''token'')"
    using rt n id_token_includes_token by (auto simp add: spec_implies_identity_token_def)
  have second: "opts ''nonce'' = None"
    if c: "responseType options = ''code'' \<and> arg_params arg ''response_type'' = None
            \<and> arg_params arg ''nonce'' = None"
  proof -
    obtain opts3 where n3: "login_nonce env arg (login_opts env options arg) = Inr opts3"
      and k: "opts ''response_type'' = opts3 ''response_type''"
      using login_params_other [OF assms, of "''response_type''"] by auto
    obtain rt' where a: "get_field (login_opts env options arg) ''response_type'' = JStr rt'"
      and b: "get_field opts3 ''response_type'' = JStr rt'"
      using login_nonce_result [OF n3] by blast
    from a c have "rt' = ''code''" by (simp add: login_opts_response_type)
    with b k rt have "rt = ''code''" by (simp add: get_field_def)
    with n c show ?thesis by simp
  qed
  from first second show ?thesis by blast
qed

theorem login_nonce_rule_witness:
  "login_params (sample_env Map.empty (Inr [])) (sample_options\<lparr>responseType := ''code''\<rparr>)
      sample_arg new_world
     = Inr (request_params (sample_env Map.empty (Inr []))
              (sample_options\<lparr>responseType := ''code''\<rparr>) sample_arg new_world,
            setUniversal ''oauth2.state'' (JStr ''0123456789'') new_world)
   \<and> request_params (sample_env Map.empty (Inr []))
        (sample_options\<lparr>responseType := ''code''\<rparr>) sample_arg new_world ''nonce'' = None"
proof -
  have h: "login_params (sample_env Map.empty (Inr [])) (sample_options\<lparr>responseType := ''code''\<rparr>)
      sample_arg new_world
     = Inr (request_params (sample_env Map.empty (Inr []))
              (sample_options\<lparr>responseType := ''code''\<rparr>) sample_arg new_world,
            setUniversal ''oauth2.state'' (JStr ''0123456789'') new_world)"
    by (simp add: request_params_def login_params_def login_nonce_def login_opts_def
          login_pkce_def Let_def get_field_def sample_env_def sample_options_def sample_arg_def
          js_or_def)
  have c: "responseType (sample_options\<lparr>responseType := ''code''\<rparr>) = ''code''
           \<and> arg_params sample_arg ''response_type'' = None
           \<and> arg_params sample_arg ''nonce'' = None"
    by (simp add: sample_arg_def)
  from login_nonce_rule [OF h] c h show ?thesis by blast
qed

text \<open>
  The claim as the spec has it, a nonce exactly when the response type implies an identity
  token, fails for the default response type \<open>token\<close>: it implies no identity token, and
  the request has a nonce.
\<close>

theorem login_nonce_counterexample:
  "request_params (sample_env Map.empty (Inr [])) sample_options sample_arg new_world ''nonce''
     = Some (JStr ''abcdefghij'')
   \<and> \<not> spec_implies_identity_token (responseType sample_options)"
  by (simp add: request_params_def login_params_def login_nonce_def login_opts_def
        login_pkce_def Let_def get_field_def sample_env_def sample_options_def sample_arg_def
        js_or_def spec_implies_identity_token_def)

text \<open>
  The popup branch of \<open>login\<close>, by the state of the popup reference: with
  \<open>undefined\<close> the condition throws; with a live window \<open>login\<close> focuses it and opens
  nothing; with \<open>null\<close> or a closed window it opens a new one. A reference that is
  \<open>undefined\<close> stays so, through \<open>login\<close> and through the interval's callback.
\<close>

lemma login_params_world:
  "login_params env options arg w = Inr (opts, w1) \<Longrightarrow>
     clientWindowReference w1 = clientWindowReference w \<and> log w1 = log w"
  by (auto simp add: login_params_def login_pkce_def Let_def split: sum.splits if_splits)

lemma login_popup:
  assumes "login_params env options arg w = Inr (opts, w1)"
      and "truthy (get_field opts ''clientWindow'')"
  shows "clientWindowReference w = RefUndefined \<Longrightarrow>
           login env options arg w = (Inl TypeError, w1)"
    and "clientWindowReference w = RefWindow False \<Longrightarrow>
           login env options arg w = (Inr (), emit Window_focus w1)"
    and "clientWindowReference w = RefNull \<or> clientWindowReference w = RefWindow True \<Longrightarrow>
           fst (login env options arg w) = Inr ()
           \<and> log (snd (login env options arg w)) =
               log w @ [Window_open (endpoints_authorization options @ ''?'' @ encodeQuery env opts)
                          ''oauth2-client-window''
                          (clientWindowFeatures env (get_field opts ''clientWindowWidth'')
                             (get_field opts ''clientWindowHeight'')),
                        Window_addEventListener, Window_setInterval]"
  using assms login_params_world [OF assms(1)]
  by (auto simp add: login_def Let_def)

lemma login_undefined_stays:
  "clientWindowReference w = RefUndefined \<Longrightarrow>
     clientWindowReference (snd (login env options arg w)) = RefUndefined"
  by (auto simp add: login_def Let_def split: sum.splits prod.splits dest: login_params_world)

lemma checkPopUpInterval_undefined:
  "clientWindowReference w = RefUndefined \<Longrightarrow>
     checkPopUpInterval strategy current w = (Inl TypeError, w)"
  by (simp add: checkPopUpInterval_def)

text \<open>
  C8. The first popup login of a scheme: the reference is still \<open>undefined\<close>, which is
  not \<open>null\<close>, so reading \<open>closed\<close> throws a TypeError; the promise of \<open>login\<close>
  rejects and no popup is opened, where the claim has a new popup window opened.
\<close>

theorem login_popup_first:
  "fst (login (sample_env Map.empty (Inr [])) (sample_options\<lparr>clientWindow := True\<rparr>)
          sample_arg new_world) = Inl TypeError
   \<and> log (snd (login (sample_env Map.empty (Inr [])) (sample_options\<lparr>clientWindow := True\<rparr>)
          sample_arg new_world)) = []"
  by (simp add: login_def login_params_def login_nonce_def login_opts_def
        login_pkce_def Let_def get_field_def sample_env_def sample_options_def sample_arg_def
        js_or_def new_world_def setUniversal_def)

subsection \<open>The Refresh Controller\<close>

lemma handleRefresh_pending:
  "refreshPromise c = Some p \<Longrightarrow>
     handleRefresh caller c = c\<lparr>returned := (caller, p) # returned c\<rparr>"
  by (simp add: handleRefresh_def)

lemma handleRefresh_idle:
  "refreshPromise c = None \<Longrightarrow>
     operations (handleRefresh caller c) = Suc (operations c)"
  by (simp add: handleRefresh_def)

lemma handleRefresh_all_pending:
  "refreshPromise c = Some p \<Longrightarrow>
     refreshPromise (handleRefresh_all callers c) = Some p
     \<and> operations (handleRefresh_all callers c) = operations c
     \<and> outcomes (handleRefresh_all callers c) = outcomes c
     \<and> (\<forall>x. map_of (returned (handleRefresh_all callers c)) x =
              (if x \<in> set callers then Some p else map_of (returned c) x))"
proof (induction callers arbitrary: c)
  case Nil
  then show ?case by simp
next
  case (Cons caller callers)
  let ?c = "c\<lparr>returned := (caller, p) # returned c\<rparr>"
  have "refreshPromise ?c = Some p" using Cons.prems by simp
  from Cons.IH [OF this] show ?case
    by (simp add: handleRefresh_pending [OF Cons.prems])
qed

text \<open>
  C4. Callers ask for a refresh while none is in flight: the first starts an operation,
  and every further caller, arriving while it is pending, is handed the pending result;
  no second operation is started, so the token endpoint is asked once. When the operation
  settles, with success or failure, every one of these callers observes that outcome, the
  in-flight marker is cleared, and a later request starts a new operation.
\<close>

theorem refresh_single_flight:
  assumes "refreshPromise c = None"
  shows "operations (handleRefresh_all (first # others) c) = Suc (operations c)
    \<and> refreshPromise (handleRefresh_all (first # others) c) = Some (operations c)
    \<and> (\<forall>caller \<in> set (first # others).
          observed (settle outcome (handleRefresh_all (first # others) c)) caller = Some outcome)
    \<and> refreshPromise (settle outcome (handleRefresh_all (first # others) c)) = None
    \<and> operations (handleRefresh later (settle outcome (handleRefresh_all (first # others) c)))
         = Suc (Suc (operations c))"
proof -
  let ?p = "operations c"
  let ?c1 = "handleRefresh first c"
  let ?c2 = "handleRefresh_all others ?c1"
  have c1: "refreshPromise ?c1 = Some ?p" "operations ?c1 = Suc ?p"
    "map_of (returned ?c1) first = Some ?p"
    using assms by (simp_all add: handleRefresh_def)
  from handleRefresh_all_pending [OF c1(1), of others]
  have c2: "refreshPromise ?c2 = Some ?p" "operations ?c2 = Suc ?p"
    "\<And>x. map_of (returned ?c2) x = (if x \<in> set others then Some ?p else map_of (returned ?c1) x)"
    using c1(2) by simp_all
  have m: "map_of (returned ?c2) caller = Some ?p" if "caller \<in> set (first # others)" for caller
    using that c2(3) [of caller] c1(3) by auto
  have s: "settle outcome ?c2 = ?c2\<lparr>outcomes := (outcomes ?c2)(?p \<mapsto> outcome), refreshPromise := None\<rparr>"
    using c2(1) by (simp add: settle_def)
  have obs: "observed (settle outcome ?c2) caller = Some outcome"
    if "caller \<in> set (first # others)" for caller
    using m [OF that] by (simp add: observed_def s)
  have idle: "refreshPromise (settle outcome ?c2) = None" by (simp add: s)
  have ops: "operations (settle outcome ?c2) = Suc ?p" using c2(2) by (simp add: s)
  have "operations (handleRefresh later (settle outcome ?c2)) = Suc (Suc ?p)"
    using handleRefresh_idle [OF idle, of later] ops by simp
  with c2(1,2) obs idle show ?thesis by simp
qed

theorem refresh_single_flight_witness:
  "refreshPromise idle_controller = None
   \<and> operations (handleRefresh_all [1, 2, 3] idle_controller) = 1
   \<and> observed (settle (Inl (RequestError ''invalid_grant''))
        (handleRefresh_all [1, 2, 3] idle_controller)) 1 = Some (Inl (RequestError ''invalid_grant''))
   \<and> observed (settle (Inl (RequestError ''invalid_grant''))
        (handleRefresh_all [1, 2, 3] idle_controller)) 3 = Some (Inl (RequestError ''invalid_grant''))
   \<and> refreshPromise (settle (Inl (RequestError ''invalid_grant''))
        (handleRefresh_all [1, 2, 3] idle_controller)) = None"
proof -
  have h: "refreshPromise idle_controller = None" by (simp add: idle_controller_def)
  from refresh_single_flight [OF h, of 1 "[2, 3]" "Inl (RequestError ''invalid_grant'')" 4] h
  show ?thesis by (simp add: idle_controller_def)
qed

end
